theory Spec2Isabelle
  imports Main "HOL-Library.Sublist"
begin

section \<open>Python string primitives used by the scripts\<close>

text \<open>
  Python strings are sequences of code points. The model uses HOL's \<open>string\<close> with one
  \<open>char\<close> per code point, which covers the code points 0..255 (Latin-1), enough for the
  Portuguese anatomical terms the scripts are run on.
\<close>

definition isspace :: "char \<Rightarrow> bool" where
  \<comment> \<open>\<open>str.isspace\<close> on the code points below 256: TAB, LF, VT, FF, CR, FS, GS, RS, US,
      SPACE, NEL (0x85) and NBSP (0xA0).\<close>
  "isspace c = (let n = (of_char c :: nat) in
      (9 \<le> n \<and> n \<le> 13) \<or> (28 \<le> n \<and> n \<le> 32) \<or> n = 133 \<or> n = 160)"

definition strip :: "string \<Rightarrow> string" where
  \<comment> \<open>\<open>s.strip()\<close>: remove leading and trailing whitespace.\<close>
  "strip s = rev (dropWhile isspace (rev (dropWhile isspace s)))"

definition lower_char :: "char \<Rightarrow> char" where
  \<comment> \<open>\<open>str.lower\<close> on one code point below 256: A..Z and the Latin-1 capitals
      (0xC0..0xDE except the multiplication sign 0xD7) move up by 32.\<close>
  "lower_char c = (let n = (of_char c :: nat) in
      if (65 \<le> n \<and> n \<le> 90) \<or> (192 \<le> n \<and> n \<le> 222 \<and> n \<noteq> 215)
      then char_of (n + 32) else c)"

definition lower :: "string \<Rightarrow> string" where
  "lower s = map lower_char s"

fun contem :: "string \<Rightarrow> string \<Rightarrow> bool" where
  \<comment> \<open>\<open>a in b\<close> on strings: \<open>a\<close> occurs in \<open>b\<close> as a contiguous substring.\<close>
  "contem a [] = (a = [])"
| "contem a (c # cs) = (prefix a (c # cs) \<or> contem a cs)"

fun split_acc :: "string \<Rightarrow> string \<Rightarrow> string list" where
  \<comment> \<open>\<open>s.split()\<close> scanning left to right; the first argument is the word being read,
      reversed.\<close>
  "split_acc w [] = (if w = [] then [] else [rev w])"
| "split_acc w (c # cs) =
     (if isspace c then (if w = [] then split_acc [] cs else rev w # split_acc [] cs)
      else split_acc (c # w) cs)"

definition split :: "string \<Rightarrow> string list" where
  \<comment> \<open>\<open>s.split()\<close> without arguments: the maximal runs of non-whitespace.\<close>
  "split s = split_acc [] s"

fun digitos :: "nat \<Rightarrow> nat \<Rightarrow> string" where
  \<comment> \<open>the decimal digits of \<open>n\<close>, most significant first; the first argument is fuel
      bounding the number of digits.\<close>
  "digitos 0 n = []"
| "digitos (Suc f) n =
     (if n < 10 then [char_of (48 + n)] else digitos f (n div 10) @ [char_of (48 + n mod 10)])"

definition str :: "nat \<Rightarrow> string" where
  \<comment> \<open>\<open>str(i)\<close> for a non-negative integer; \<open>n\<close> has at most \<open>n + 1\<close> digits.\<close>
  "str n = digitos (Suc n) n"

section \<open>OCR output and the word-box list\<close>

text \<open>
  \<open>pytesseract.image_to_data(..., output_type=Output.DICT)\<close> returns index-aligned arrays
  \<open>text\<close>, \<open>conf\<close>, \<open>left\<close>, \<open>top\<close>, \<open>width\<close>, \<open>height\<close>; entry \<open>i\<close> of the arrays is
  one \<open>token\<close> here.
\<close>

record token =
  tok_text :: string
  tok_conf :: int
  tok_left :: int
  tok_top :: int
  tok_width :: int
  tok_height :: int

text \<open>An entry of \<open>coordenadas_palavras\<close> (keys \<open>texto\<close>, \<open>x\<close>, \<open>y\<close>, \<open>largura\<close>, \<open>altura\<close>).\<close>

record coord =
  texto :: string
  coord_x :: int
  coord_y :: int
  largura :: int
  altura :: int

type_synonym retangulo = "int \<times> int \<times> int \<times> int"

text \<open>
  The calls made on the \<open>ImageDraw\<close> object, in order. \<open>Preencher r\<close> is
  \<open>rectangle(r, fill=(255, 255, 255))\<close>; \<open>Contornar r\<close> is
  \<open>rectangle(r, outline=(255, 0, 0), width=3)\<close>.
\<close>

datatype desenho_op = Preencher retangulo | Contornar retangulo

subsection \<open>The erase-all-text script: \<open>detectar_e_cobrir_texto\<close>\<close>

fun cobrir_blocos :: "token list \<Rightarrow> desenho_op list \<times> nat \<Rightarrow> desenho_op list \<times> nat" where
  \<comment> \<open>the loop \<open>for i in range(len(dados['text']))\<close>; the state is the calls drawn so far and
      \<open>total_blocos_cobertos\<close>.\<close>
  "cobrir_blocos [] st = st"
| "cobrir_blocos (t # ts) (ops, cobertos) =
     (if tok_conf t > 0 \<and> strip (tok_text t) \<noteq> []
      then cobrir_blocos ts
             (ops @ [Preencher (tok_left t, tok_top t,
                                tok_left t + tok_width t, tok_top t + tok_height t)],
              cobertos + 1)
      else cobrir_blocos ts (ops, cobertos))"

subsection \<open>The highlight script: building \<open>coordenadas_palavras\<close>\<close>

fun coordenadas_palavras :: "token list \<Rightarrow> coord list" where
  \<comment> \<open>the loop that fills \<open>coordenadas_palavras\<close> in \<open>detectar_e_destacar_palavras\<close>.\<close>
  "coordenadas_palavras [] = []"
| "coordenadas_palavras (t # ts) =
     (if tok_conf t > 30 \<and> strip (tok_text t) \<noteq> []
      then \<lparr>texto = strip (tok_text t), coord_x = tok_left t, coord_y = tok_top t,
            largura = tok_width t, altura = tok_height t\<rparr> # coordenadas_palavras ts
      else coordenadas_palavras ts)"

subsection \<open>The highlight script: the scan of \<open>detectar_e_destacar_palavras\<close>\<close>

text \<open>An entry of \<open>destaques\<close>: the centre and the extent of a covered region.\<close>

record destaque =
  dest_x :: int
  dest_y :: int
  dest_largura :: int
  dest_altura :: int

text \<open>
  What the scan mutates: the calls made on \<open>desenho\<close> so far, in order, the list
  \<open>destaques\<close> and the counter \<open>palavras_encontradas\<close>.
\<close>

record estado =
  desenho :: "desenho_op list"
  destaques :: "destaque list"
  palavras_encontradas :: nat

definition estado_inicial :: estado where
  "estado_inicial = \<lparr>desenho = [], destaques = [], palavras_encontradas = 0\<rparr>"

text \<open>
  The exceptions the body can raise. \<open>OSError\<close> stands for whatever
  \<open>ImageFont.load_default()\<close> raises on a system where the default font cannot be loaded.
\<close>

datatype excecao = IndexError | ValueError | OSError

primrec sequencia_encontrada :: "coord list \<Rightarrow> nat \<Rightarrow> string list \<Rightarrow> bool" where
  \<comment> \<open>the inner loop \<open>for j in range(len(palavras_da_frase))\<close>; the second argument is
      \<open>i + j\<close>, the third the phrase tokens from \<open>j\<close> on.\<close>
  "sequencia_encontrada cs p [] = True"
| "sequencia_encontrada cs p (t # ts) =
     (if p \<ge> length cs then False
      else if \<not> contem t (lower (texto (cs ! p))) then False
      else sequencia_encontrada cs (Suc p) ts)"

definition min_lista :: "int list \<Rightarrow> int" where
  \<comment> \<open>\<open>min(...)\<close> of a non-empty sequence.\<close>
  "min_lista xs = fold min (tl xs) (hd xs)"

definition max_lista :: "int list \<Rightarrow> int" where
  \<comment> \<open>\<open>max(...)\<close> of a non-empty sequence.\<close>
  "max_lista xs = fold max (tl xs) (hd xs)"

definition retangulo_frase :: "coord list \<Rightarrow> nat \<Rightarrow> nat \<Rightarrow> excecao + retangulo" where
  \<comment> \<open>\<open>x_min, y_min, x_max, y_max\<close> of the window of \<open>k\<close> boxes starting at \<open>i\<close>.
      \<open>coordenadas_palavras[i]\<close> raises IndexError out of range, \<open>min\<close> of an empty
      generator raises ValueError.\<close>
  "retangulo_frase cs i k =
     (if i \<ge> length cs then Inl IndexError
      else if k = 0 then Inl ValueError
      else if i + k > length cs then Inl IndexError
      else Inr (coord_x (cs ! i),
                min_lista (map (\<lambda>j. coord_y (cs ! (i + j))) [0..<k]),
                coord_x (cs ! (i + k - 1)) + largura (cs ! (i + k - 1)),
                max_lista (map (\<lambda>j. coord_y (cs ! (i + j)) + altura (cs ! (i + j))) [0..<k])))"

definition retangulo_aceito :: "retangulo \<Rightarrow> bool" where
  \<comment> \<open>\<open>ImageDraw.rectangle\<close> of Pillow 9.5 and later raises ValueError unless
      \<open>x1 \<ge> x0\<close> and \<open>y1 \<ge> y0\<close>.\<close>
  "retangulo_aceito r = (case r of (x0, y0, x1, y1) \<Rightarrow> x0 \<le> x1 \<and> y0 \<le> y1)"

definition regiao_destacada :: "bool \<Rightarrow> bool \<Rightarrow> retangulo \<Rightarrow> estado \<Rightarrow> estado" where
  \<comment> \<open>the state after the body of \<open>if sequencia_encontrada:\<close> for the rectangle
      \<open>(x_min, y_min, x_max, y_max)\<close>, when its drawing calls return.\<close>
  "regiao_destacada ocultar_palavras numerar_palavras r st =
     (case r of (x_min, y_min, x_max, y_max) \<Rightarrow>
        \<lparr>desenho = desenho st
             @ (if ocultar_palavras then [Preencher (x_min, y_min, x_max, y_max)] else [])
             @ [Contornar (x_min - 2, y_min - 2, x_max + 2, y_max + 2)],
         destaques = destaques st
             @ (if ocultar_palavras \<and> numerar_palavras
                then [\<lparr>dest_x = x_min + (x_max - x_min) div 2,
                       dest_y = y_min + (y_max - y_min) div 2,
                       dest_largura = x_max - x_min,
                       dest_altura = y_max - y_min\<rparr>]
                else []),
         palavras_encontradas = palavras_encontradas st + 1\<rparr>)"

definition destacar_frase :: "bool \<Rightarrow> bool \<Rightarrow> retangulo \<Rightarrow> estado \<Rightarrow> excecao + estado" where
  \<comment> \<open>the body of \<open>if sequencia_encontrada:\<close> after the rectangle is computed. The script
      never orders \<open>x_min\<close> and \<open>x_max\<close>: the fill, then the outline, raise when the library
      refuses the rectangle.\<close>
  "destacar_frase ocultar_palavras numerar_palavras r st =
     (case r of (x_min, y_min, x_max, y_max) \<Rightarrow>
        if ocultar_palavras \<and> \<not> retangulo_aceito (x_min, y_min, x_max, y_max)
        then Inl ValueError
        else if \<not> retangulo_aceito (x_min - 2, y_min - 2, x_max + 2, y_max + 2)
        then Inl ValueError
        else Inr (regiao_destacada ocultar_palavras numerar_palavras r st))"

definition destacar_palavra :: "bool \<Rightarrow> bool \<Rightarrow> coord \<Rightarrow> estado \<Rightarrow> estado" where
  \<comment> \<open>the body of \<open>if palavra_chave in coord['texto'].lower():\<close>. The width and height are
      those the OCR engine reports for one word, never negative, so the library accepts both
      rectangles.\<close>
  "destacar_palavra ocultar_palavras numerar_palavras c st =
     \<lparr>desenho = desenho st
          @ (if ocultar_palavras
             then [Preencher (coord_x c, coord_y c, coord_x c + largura c, coord_y c + altura c)]
             else [])
          @ [Contornar (coord_x c - 2, coord_y c - 2,
                        coord_x c + largura c + 2, coord_y c + altura c + 2)],
      destaques = destaques st
          @ (if ocultar_palavras \<and> numerar_palavras
             then [\<lparr>dest_x = coord_x c + largura c div 2,
                    dest_y = coord_y c + altura c div 2,
                    dest_largura = largura c,
                    dest_altura = altura c\<rparr>]
             else []),
      palavras_encontradas = palavras_encontradas st + 1\<rparr>"

fun laco_frase ::
  "bool \<Rightarrow> bool \<Rightarrow> coord list \<Rightarrow> string list \<Rightarrow> nat list \<Rightarrow> estado \<Rightarrow> excecao + estado" where
  \<comment> \<open>the loop \<open>for i in range(...)\<close> of the multi-word branch, over the given indices.\<close>
  "laco_frase oc nu cs palavras_da_frase [] st = Inr st"
| "laco_frase oc nu cs palavras_da_frase (i # is) st =
     (if sequencia_encontrada cs i palavras_da_frase
      then (case retangulo_frase cs i (length palavras_da_frase) of
              Inl e \<Rightarrow> Inl e
            | Inr r \<Rightarrow>
                (case destacar_frase oc nu r st of
                   Inl e \<Rightarrow> Inl e
                 | Inr st' \<Rightarrow> laco_frase oc nu cs palavras_da_frase is st'))
      else laco_frase oc nu cs palavras_da_frase is st)"

fun laco_palavra :: "bool \<Rightarrow> bool \<Rightarrow> string \<Rightarrow> coord list \<Rightarrow> estado \<Rightarrow> estado" where
  \<comment> \<open>the loop \<open>for coord in coordenadas_palavras\<close> of the single-word branch.\<close>
  "laco_palavra oc nu palavra_chave [] st = st"
| "laco_palavra oc nu palavra_chave (c # cs) st =
     (if contem palavra_chave (lower (texto c))
      then laco_palavra oc nu palavra_chave cs (destacar_palavra oc nu c st)
      else laco_palavra oc nu palavra_chave cs st)"

definition destacar_chave ::
  "bool \<Rightarrow> bool \<Rightarrow> coord list \<Rightarrow> string \<Rightarrow> estado \<Rightarrow> excecao + estado" where
  \<comment> \<open>the body of \<open>for palavra_chave in palavras_chave_lower\<close>.\<close>
  "destacar_chave oc nu cs palavra_chave st =
     (if CHR '' '' \<in> set palavra_chave
      then (let palavras_da_frase = split palavra_chave
            in laco_frase oc nu cs palavras_da_frase
                 [0..<length cs + 1 - length palavras_da_frase] st)
      else Inr (laco_palavra oc nu palavra_chave cs st))"

fun laco_chaves ::
  "bool \<Rightarrow> bool \<Rightarrow> coord list \<Rightarrow> string list \<Rightarrow> estado \<Rightarrow> excecao + estado" where
  \<comment> \<open>the loop \<open>for palavra_chave in palavras_chave_lower\<close>; an exception ends it.\<close>
  "laco_chaves oc nu cs [] st = Inr st"
| "laco_chaves oc nu cs (palavra_chave # resto) st =
     (case destacar_chave oc nu cs palavra_chave st of
        Inl e \<Rightarrow> Inl e
      | Inr st' \<Rightarrow> laco_chaves oc nu cs resto st')"

subsection \<open>The highlight script: sequential numbering\<close>

text \<open>
  The loaded font: the size it was loaded at (20 for \<open>truetype("arial.ttf", 20)\<close>, the
  size of the built-in font for \<open>load_default()\<close>) and the two measuring methods the script
  probes. \<open>None\<close> for \<open>getsize\<close> is the AttributeError of a Pillow that no longer has the
  method; \<open>None\<close> for \<open>getbbox\<close> is a call that raises.
\<close>

record fonte =
  fonte_tamanho :: int
  getsize :: "(string \<Rightarrow> int \<times> int) option"
  getbbox :: "(string \<Rightarrow> int \<times> int \<times> int \<times> int) option"

text \<open>
  A call \<open>desenho.text((pos_x, pos_y), numero_str, fill=(0, 0, 255), font=fonte)\<close>; the
  glyphs have the size of the font passed.
\<close>

record rotulo =
  pos_x :: int
  pos_y :: int
  numero_str :: string
  rot_tamanho :: int

definition tamanho_fonte :: "destaque \<Rightarrow> int" where
  "tamanho_fonte d = max (min (dest_largura d) (dest_altura d) div 2) 12"

definition meia_medida :: "fonte \<Rightarrow> string \<Rightarrow> int \<Rightarrow> int \<times> int" where
  \<comment> \<open>\<open>(largura_texto // 2, altura_texto // 2)\<close> through the three tiers. In the last tier
      the script multiplies by the float 0.6; the model takes it as the rational 3/5, so
      \<open>largura_texto // 2\<close> is the floor of \<open>3 * len * tamanho / 10\<close>.\<close>
  "meia_medida f s tam =
     (case getsize f of
        Some medir \<Rightarrow> (case medir s of (largura_texto, altura_texto) \<Rightarrow>
                         (largura_texto div 2, altura_texto div 2))
      | None \<Rightarrow>
          (case getbbox f of
             Some caixa \<Rightarrow> (case caixa s of (x0, y0, x1, y1) \<Rightarrow>
                              ((x1 - x0) div 2, (y1 - y0) div 2))
           | None \<Rightarrow> ((3 * int (length s) * tam) div 10, tam div 2)))"

definition rotular :: "fonte option \<Rightarrow> nat \<Rightarrow> destaque \<Rightarrow> excecao + rotulo" where
  \<comment> \<open>the body of \<open>for i, destaque in enumerate(destaques, 1)\<close>. \<open>fonte\<close> is \<open>None\<close> only
      when \<open>ImageFont.load_default()\<close> raised; the call \<open>desenho.text\<close> without a font then
      asks the library for the default font again, and raises.\<close>
  "rotular fo i d =
     (case fo of
        Some f \<Rightarrow>
          (case meia_medida f (str i) (tamanho_fonte d) of (meia_largura, meia_altura) \<Rightarrow>
             Inr \<lparr>pos_x = max (dest_x d - meia_largura) (dest_x d - dest_largura d div 2 + 2),
                  pos_y = max (dest_y d - meia_altura) (dest_y d - dest_altura d div 2 + 2),
                  numero_str = str i,
                  rot_tamanho = fonte_tamanho f\<rparr>)
      | None \<Rightarrow> Inl OSError)"

fun enumerar :: "fonte option \<Rightarrow> nat \<Rightarrow> destaque list \<Rightarrow> excecao + rotulo list" where
  \<comment> \<open>\<open>enumerate(destaques, i)\<close> with the loop body applied; an exception ends the loop.\<close>
  "enumerar fo i [] = Inr []"
| "enumerar fo i (d # ds) =
     (case rotular fo i d of
        Inl e \<Rightarrow> Inl e
      | Inr r \<Rightarrow> (case enumerar fo (Suc i) ds of
                   Inl e \<Rightarrow> Inl e
                 | Inr rs \<Rightarrow> Inr (r # rs)))"

definition numeracao :: "fonte option \<Rightarrow> bool \<Rightarrow> destaque list \<Rightarrow> excecao + rotulo list" where
  \<comment> \<open>\<open>if numerar_palavras and destaques: ...\<close>\<close>
  "numeracao fo numerar_palavras ds =
     (if numerar_palavras \<and> ds \<noteq> [] then enumerar fo 1 ds else Inr [])"

subsection \<open>The highlight script: \<open>detectar_e_destacar_palavras\<close>\<close>

type_synonym cor = "nat \<times> nat \<times> nat"

record imagem =
  img_largura :: int
  img_altura :: int
  pixel :: "int \<times> int \<Rightarrow> cor"

text \<open>
  What \<open>imagem.save\<close> writes: the opened image with the rectangle calls applied in order and
  then the number labels drawn on top.
\<close>

record arquivo =
  base :: imagem
  chamadas :: "desenho_op list"
  rotulos :: "rotulo list"

text \<open>
  What the external collaborators return for one image: \<open>Image.open\<close> with the conversion to
  RGB, the two OCR calls and the font loading. \<open>None\<close> is a call that raises.
\<close>

record ambiente =
  abrir_imagem :: "imagem option"
  image_to_string :: "string option"
  image_to_data :: "token list option"
  fonte_carregada :: "fonte option"

datatype evento =
    Aviso_sem_fonte
  | Info_nenhuma_palavra_chave string
  | Erro_ao_processar string
  | Info_processando string
  | Info_excluida string
  | Info_mantida string
  | Info_destacadas string nat
  | Erro_falha string

record resultado =
  sucesso :: bool
  ocorrencias :: nat
  encontrou :: bool
  salvo :: "arquivo option"
  registro :: "evento list"

definition falha :: "string \<Rightarrow> evento list \<Rightarrow> resultado" where
  \<comment> \<open>the handler \<open>except Exception\<close>: log and \<open>return False, 0, False\<close>.\<close>
  "falha nome reg = \<lparr>sucesso = False, ocorrencias = 0, encontrou = False, salvo = None,
                     registro = reg @ [Erro_ao_processar nome]\<rparr>"

definition texto_encontrado :: "string list \<Rightarrow> string \<Rightarrow> bool" where
  \<comment> \<open>the full-text gate: some key phrase occurs in \<open>texto_completo\<close>.\<close>
  "texto_encontrado palavras_chave_lower texto_completo =
     list_ex (\<lambda>palavra. contem palavra texto_completo) palavras_chave_lower"

definition detectar_e_destacar_palavras ::
  "ambiente \<Rightarrow> string \<Rightarrow> string list \<Rightarrow> bool \<Rightarrow> bool \<Rightarrow> resultado" where
  "detectar_e_destacar_palavras amb nome palavras_chave ocultar_palavras numerar_palavras =
     (case abrir_imagem amb of
        None \<Rightarrow> falha nome []
      | Some img \<Rightarrow>
     (case image_to_string amb of
        None \<Rightarrow> falha nome []
      | Some texto_ocr \<Rightarrow>
     (case image_to_data amb of
        None \<Rightarrow> falha nome []
      | Some dados \<Rightarrow>
          (let texto_completo = lower texto_ocr;
               reg = (case fonte_carregada amb of None \<Rightarrow> [Aviso_sem_fonte] | Some f \<Rightarrow> []);
               palavras_chave_lower = map lower palavras_chave
           in if \<not> texto_encontrado palavras_chave_lower texto_completo
              then \<lparr>sucesso = True, ocorrencias = 0, encontrou = False,
                    salvo = Some \<lparr>base = img, chamadas = [], rotulos = []\<rparr>,
                    registro = reg @ [Info_nenhuma_palavra_chave nome]\<rparr>
              else (case laco_chaves ocultar_palavras numerar_palavras
                           (coordenadas_palavras dados) palavras_chave_lower estado_inicial of
                      Inl e \<Rightarrow> falha nome reg
                    | Inr st \<Rightarrow>
                        (case numeracao (fonte_carregada amb) numerar_palavras
                                (destaques st) of
                           Inl e \<Rightarrow> falha nome reg
                         | Inr rs \<Rightarrow>
                             \<lparr>sucesso = True, ocorrencias = palavras_encontradas st,
                              encontrou = True,
                              salvo = Some \<lparr>base = img, chamadas = desenho st,
                                            rotulos = rs\<rparr>,
                              registro = reg\<rparr>))))))"

fun texto_reconstruido :: "token list \<Rightarrow> string" where
  \<comment> \<open>the string \<open>texto_reconstruido\<close> built next to \<open>coordenadas_palavras\<close>: the kept texts,
      each followed by a space. The script never reads it.\<close>
  "texto_reconstruido [] = []"
| "texto_reconstruido (t # ts) =
     (if tok_conf t > 30 \<and> strip (tok_text t) \<noteq> []
      then strip (tok_text t) @ '' '' @ texto_reconstruido ts
      else texto_reconstruido ts)"

subsection \<open>The highlight script: the batch loop of \<open>processar_imagens\<close>\<close>

record opcoes =
  deletar_sem_destaque :: bool
  modo_duplo :: bool
  ocultar_palavras :: bool
  numerar_palavras :: bool

text \<open>
  The destination folders (file name to file content) and the counters of the loop.
\<close>

record lote =
  pasta_destino :: "string \<rightharpoonup> arquivo"
  pasta_gabarito :: "string \<rightharpoonup> arquivo"
  pasta_prova :: "string \<rightharpoonup> arquivo"
  imagens_processadas :: nat
  imagens_com_erro :: nat
  imagens_sem_palavras :: nat
  imagens_deletadas :: nat
  total_palavras_destacadas :: nat
  log :: "evento list"

definition salvar :: "(string \<rightharpoonup> arquivo) \<Rightarrow> string \<Rightarrow> resultado \<Rightarrow> (string \<rightharpoonup> arquivo)" where
  \<comment> \<open>the effect of the \<open>imagem.save(caminho_destino / nome)\<close> inside the call on the folder.\<close>
  "salvar pasta nome r = (case salvo r of None \<Rightarrow> pasta | Some a \<Rightarrow> pasta(nome \<mapsto> a))"

definition contabilizar :: "opcoes \<Rightarrow> string \<Rightarrow> bool \<Rightarrow> nat \<Rightarrow> bool \<Rightarrow> lote \<Rightarrow> lote" where
  \<comment> \<open>the tail of the loop body, from \<open>if sucesso:\<close>.\<close>
  "contabilizar op nome suc palavras_destacadas encontrou_palavras l =
     (if suc
      then (let l1 = l\<lparr>imagens_processadas := imagens_processadas l + 1,
                        total_palavras_destacadas :=
                          total_palavras_destacadas l + palavras_destacadas\<rparr>
            in if \<not> encontrou_palavras
               then l1\<lparr>imagens_sem_palavras := imagens_sem_palavras l1 + 1,
                       log := log l1 @ (if \<not> deletar_sem_destaque op
                                        then [Info_mantida nome] else [])\<rparr>
               else l1\<lparr>log := log l1 @ [Info_destacadas nome palavras_destacadas]\<rparr>)
      else l\<lparr>imagens_com_erro := imagens_com_erro l + 1,
             log := log l @ [Erro_falha nome]\<rparr>)"

definition processar_imagem ::
  "string list \<Rightarrow> opcoes \<Rightarrow> string \<times> ambiente \<Rightarrow> lote \<Rightarrow> lote" where
  \<comment> \<open>one iteration of \<open>for imagem_path in tqdm(imagens, ...)\<close>.\<close>
  "processar_imagem palavras_chave op im l =
     (case im of (nome, amb) \<Rightarrow>
      (let l0 = l\<lparr>log := log l @ [Info_processando nome]\<rparr> in
       if modo_duplo op
       then (let rg = detectar_e_destacar_palavras amb nome palavras_chave False False;
                 l1 = l0\<lparr>pasta_gabarito := salvar (pasta_gabarito l0) nome rg,
                         log := log l0 @ registro rg\<rparr>;
                 rp = detectar_e_destacar_palavras amb nome palavras_chave True
                        (numerar_palavras op);
                 l2 = l1\<lparr>pasta_prova := salvar (pasta_prova l1) nome rp,
                         log := log l1 @ registro rp\<rparr>;
                 suc = (sucesso rg \<and> sucesso rp);
                 l3 = (if deletar_sem_destaque op \<and> \<not> encontrou rg
                       then l2\<lparr>pasta_gabarito := (pasta_gabarito l2)(nome := None),
                               pasta_prova := (pasta_prova l2)(nome := None),
                               imagens_deletadas := imagens_deletadas l2 + 1,
                               log := log l2 @ [Info_excluida nome]\<rparr>
                       else l2)
             in contabilizar op nome suc (ocorrencias rg) (encontrou rg) l3)
       else (let r = detectar_e_destacar_palavras amb nome palavras_chave
                       (ocultar_palavras op) (ocultar_palavras op \<and> numerar_palavras op);
                 l1 = l0\<lparr>pasta_destino := salvar (pasta_destino l0) nome r,
                         log := log l0 @ registro r\<rparr>;
                 l2 = (if \<not> encontrou r \<and> deletar_sem_destaque op
                       then (if pasta_destino l1 nome \<noteq> None
                             then l1\<lparr>pasta_destino := (pasta_destino l1)(nome := None),
                                     imagens_deletadas := imagens_deletadas l1 + 1,
                                     log := log l1 @ [Info_excluida nome]\<rparr>
                             else l1)
                       else l1)
             in contabilizar op nome (sucesso r) (ocorrencias r) (encontrou r) l2)))"

fun laco_imagens :: "string list \<Rightarrow> opcoes \<Rightarrow> (string \<times> ambiente) list \<Rightarrow> lote \<Rightarrow> lote" where
  "laco_imagens palavras_chave op [] l = l"
| "laco_imagens palavras_chave op (im # ims) l =
     laco_imagens palavras_chave op ims (processar_imagem palavras_chave op im l)"

section \<open>Notions of the specification\<close>

text \<open>
  The definitions of this section are not translations of code: they say, in the words of the
  specification, what the theorems below compare the code with, and they fix the data of the
  examples.
\<close>

subsection \<open>The filtering rule\<close>

definition bloco_coberto :: "token \<Rightarrow> desenho_op" where
  "bloco_coberto t =
     Preencher (tok_left t, tok_top t, tok_left t + tok_width t, tok_top t + tok_height t)"

definition caixa_de :: "token \<Rightarrow> coord" where
  "caixa_de t = \<lparr>texto = strip (tok_text t), coord_x = tok_left t, coord_y = tok_top t,
                 largura = tok_width t, altura = tok_height t\<rparr>"

definition descartado :: "int \<Rightarrow> token \<Rightarrow> bool" where
  \<comment> \<open>the filtering rule in the specification's words: trimmed text empty, or confidence at
      or below the threshold.\<close>
  "descartado limiar t = (strip (tok_text t) = [] \<or> tok_conf t \<le> limiar)"

subsection \<open>Match regions\<close>

text \<open>
  Emitting a match region with bounds \<open>r\<close> is one run of the body whose calls return, that
  is \<open>regiao_destacada oc nu r\<close>: the optional fill of \<open>r\<close>, the outline of \<open>r\<close> widened by 2
  pixels, and the count.
\<close>

definition spec_janela :: "coord list \<Rightarrow> string list \<Rightarrow> nat \<Rightarrow> bool" where
  \<comment> \<open>the boxes \<open>[i, i + k)\<close> exist and token \<open>j\<close> is a substring of the lower-cased text of
      box \<open>i + j\<close>.\<close>
  "spec_janela cs toks i =
     (i + length toks \<le> length cs \<and>
      (\<forall>j<length toks. contem (toks ! j) (lower (texto (cs ! (i + j))))))"

definition spec_limites :: "coord list \<Rightarrow> nat \<Rightarrow> nat \<Rightarrow> retangulo" where
  \<comment> \<open>from the first box's left edge to the last box's right edge, from the minimum top to
      the maximum bottom of the \<open>k\<close> boxes.\<close>
  "spec_limites cs i k =
     (coord_x (cs ! i),
      Min ((\<lambda>j. coord_y (cs ! (i + j))) ` {..<k}),
      coord_x (cs ! (i + k - 1)) + largura (cs ! (i + k - 1)),
      Max ((\<lambda>j. coord_y (cs ! (i + j)) + altura (cs ! (i + j))) ` {..<k}))"

definition caixa :: "coord \<Rightarrow> retangulo" where
  \<comment> \<open>the rectangle of one word box.\<close>
  "caixa c = (coord_x c, coord_y c, coord_x c + largura c, coord_y c + altura c)"

definition margem :: "retangulo \<Rightarrow> retangulo" where
  \<comment> \<open>a rectangle moved outward by the fixed 2 pixel margin.\<close>
  "margem r = (case r of (x0, y0, x1, y1) \<Rightarrow> (x0 - 2, y0 - 2, x1 + 2, y1 + 2))"

definition desenhavel :: "bool \<Rightarrow> retangulo \<Rightarrow> bool" where
  \<comment> \<open>the library accepts the rectangles of a region: the fill, when the region is covered,
      and the outline.\<close>
  "desenhavel oc r = ((oc \<longrightarrow> retangulo_aceito r) \<and> retangulo_aceito (margem r))"

fun cobertas :: "desenho_op list \<Rightarrow> retangulo list" where
  \<comment> \<open>the covered regions, in the order they were filled.\<close>
  "cobertas [] = []"
| "cobertas (Preencher r # ops) = r # cobertas ops"
| "cobertas (Contornar r # ops) = cobertas ops"

fun regioes :: "desenho_op list \<Rightarrow> retangulo list" where
  \<comment> \<open>the bounds of the emitted regions, read back from the outlines (each is drawn 2
      pixels outside its region).\<close>
  "regioes [] = []"
| "regioes (Preencher r # ops) = regioes ops"
| "regioes (Contornar (x0, y0, x1, y1) # ops) = (x0 + 2, y0 + 2, x1 - 2, y1 - 2) # regioes ops"

definition destaque_de :: "retangulo \<Rightarrow> destaque" where
  \<comment> \<open>centre point and extent of a region.\<close>
  "destaque_de r = (case r of (x0, y0, x1, y1) \<Rightarrow>
     \<lparr>dest_x = x0 + (x1 - x0) div 2, dest_y = y0 + (y1 - y0) div 2,
      dest_largura = x1 - x0, dest_altura = y1 - y0\<rparr>)"


definition spec_dentro_da_imagem :: "int \<Rightarrow> int \<Rightarrow> retangulo \<Rightarrow> bool" where
  \<comment> \<open>bounds within an image of the given width and height.\<close>
  "spec_dentro_da_imagem w h r = (case r of (xmin, ymin, xmax, ymax) \<Rightarrow>
     0 \<le> xmin \<and> xmin \<le> xmax \<and> xmax \<le> w \<and> 0 \<le> ymin \<and> ymin \<le> ymax \<and> ymax \<le> h)"

definition caixa_na_imagem :: "int \<Rightarrow> int \<Rightarrow> coord \<Rightarrow> bool" where
  \<comment> \<open>a word box of non-negative extent that lies within the image.\<close>
  "caixa_na_imagem w h c =
     (0 \<le> coord_x c \<and> 0 \<le> largura c \<and> coord_x c + largura c \<le> w \<and>
      0 \<le> coord_y c \<and> 0 \<le> altura c \<and> coord_y c + altura c \<le> h)"

subsection \<open>Pixels\<close>









subsection \<open>Numbering\<close>

definition inv_numeracao :: "bool \<Rightarrow> bool \<Rightarrow> estado \<Rightarrow> bool" where
  \<comment> \<open>\<open>destaques\<close> holds one entry per filled region, in order, when both flags are set, and
      nothing otherwise; without the cover flag nothing is filled.\<close>
  "inv_numeracao oc nu st =
     (destaques st = (if oc \<and> nu then map destaque_de (cobertas (desenho st)) else []) \<and>
      (oc \<or> cobertas (desenho st) = []))"

subsection \<open>The batch\<close>

definition sucesso_imagem :: "string list \<Rightarrow> opcoes \<Rightarrow> string \<times> ambiente \<Rightarrow> bool" where
  \<comment> \<open>the value of \<open>sucesso\<close> in the iteration for one image.\<close>
  "sucesso_imagem palavras_chave op im = (case im of (nome, amb) \<Rightarrow>
     (if modo_duplo op
      then sucesso (detectar_e_destacar_palavras amb nome palavras_chave False False) \<and>
           sucesso (detectar_e_destacar_palavras amb nome palavras_chave True (numerar_palavras op))
      else sucesso (detectar_e_destacar_palavras amb nome palavras_chave (ocultar_palavras op)
                      (ocultar_palavras op \<and> numerar_palavras op))))"

subsection \<open>The examples\<close>

text \<open>
  The two word boxes of the specification's example, a 200 by 100 image, and a font loaded at
  size 20 whose \<open>getsize\<close> measures every label as 6 by 11 pixels.
\<close>

definition exemplo_femur :: coord where
  "exemplo_femur = \<lparr>texto = ''Femur'', coord_x = 10, coord_y = 10, largura = 50, altura = 20\<rparr>"

definition exemplo_tibia :: coord where
  "exemplo_tibia = \<lparr>texto = ''tibia'', coord_x = 10, coord_y = 40, largura = 50, altura = 20\<rparr>"

definition exemplo_imagem :: imagem where
  "exemplo_imagem = \<lparr>img_largura = 200, img_altura = 100, pixel = (\<lambda>p. (0, 0, 0))\<rparr>"

definition exemplo_fonte :: fonte where
  "exemplo_fonte = \<lparr>fonte_tamanho = 20, getsize = Some (\<lambda>s. (6, 11)), getbbox = None\<rparr>"

definition exemplo_fonte_sem_medida :: fonte where
  \<comment> \<open>a font loaded at size 20 on which both measuring methods fail.\<close>
  "exemplo_fonte_sem_medida = \<lparr>fonte_tamanho = 20, getsize = None, getbbox = None\<rparr>"

text \<open>
  An image whose full-text OCR reads "Femur tibia" while the word "Femur" reaches the word
  list with confidence 20 only, below the threshold of the highlight script.
\<close>

definition exemplo_dados :: "token list" where
  \<comment> \<open>the word "Femur" read with confidence 20, the word "tibia" with confidence 80.\<close>
  "exemplo_dados =
     [\<lparr>tok_text = ''Femur'', tok_conf = 20, tok_left = 10, tok_top = 10,
       tok_width = 50, tok_height = 20\<rparr>,
      \<lparr>tok_text = ''tibia'', tok_conf = 80, tok_left = 10, tok_top = 40,
       tok_width = 50, tok_height = 20\<rparr>]"

definition exemplo_ambiente :: ambiente where
  "exemplo_ambiente = \<lparr>abrir_imagem = Some exemplo_imagem,
                        image_to_string = Some ''Femur tibia'',
                        image_to_data = Some exemplo_dados,
                        fonte_carregada = Some exemplo_fonte\<rparr>"

text \<open>
  A run that deletes the images without key phrases, the state of the batch before the
  first image, and a file that cannot be opened.
\<close>

definition exemplo_opcoes :: opcoes where
  "exemplo_opcoes = \<lparr>deletar_sem_destaque = True, modo_duplo = False,
                      ocultar_palavras = True, numerar_palavras = True\<rparr>"

definition lote_vazio :: lote where
  "lote_vazio = \<lparr>pasta_destino = Map.empty, pasta_gabarito = Map.empty, pasta_prova = Map.empty,
                  imagens_processadas = 0, imagens_com_erro = 0, imagens_sem_palavras = 0,
                  imagens_deletadas = 0, total_palavras_destacadas = 0, log = []\<rparr>"

definition exemplo_ilegivel :: ambiente where
  \<comment> \<open>a file that \<open>Image.open\<close> cannot read.\<close>
  "exemplo_ilegivel = \<lparr>abrir_imagem = None, image_to_string = None,
                        image_to_data = None, fonte_carregada = None\<rparr>"

text \<open>
  The same image with both words read at confidence 80, on a system with the font and on one
  where no font can be loaded; the files the script saves, cover and numbering on, for the
  key phrases "Femur tibia" and "tibia" and for "tibia" alone; the entry of \<open>destaques\<close> for
  the box of "tibia".
\<close>

definition exemplo_dados_nitidos :: "token list" where
  \<comment> \<open>both words read with confidence 80.\<close>
  "exemplo_dados_nitidos =
     [\<lparr>tok_text = ''Femur'', tok_conf = 80, tok_left = 10, tok_top = 10,
       tok_width = 50, tok_height = 20\<rparr>,
      \<lparr>tok_text = ''tibia'', tok_conf = 80, tok_left = 10, tok_top = 40,
       tok_width = 50, tok_height = 20\<rparr>]"

definition exemplo_ambiente_nitido :: ambiente where
  "exemplo_ambiente_nitido = \<lparr>abrir_imagem = Some exemplo_imagem,
                               image_to_string = Some ''Femur tibia'',
                               image_to_data = Some exemplo_dados_nitidos,
                               fonte_carregada = Some exemplo_fonte\<rparr>"

definition exemplo_ambiente_sem_fonte :: ambiente where
  "exemplo_ambiente_sem_fonte = \<lparr>abrir_imagem = Some exemplo_imagem,
                                  image_to_string = Some ''Femur tibia'',
                                  image_to_data = Some exemplo_dados_nitidos,
                                  fonte_carregada = None\<rparr>"

definition exemplo_prova :: arquivo where
  "exemplo_prova =
     \<lparr>base = exemplo_imagem,
      chamadas = [Preencher (10, 10, 60, 60), Contornar (8, 8, 62, 62),
                  Preencher (10, 40, 60, 60), Contornar (8, 38, 62, 62)],
      rotulos = [\<lparr>pos_x = 32, pos_y = 30, numero_str = ''1'', rot_tamanho = 20\<rparr>,
                 \<lparr>pos_x = 32, pos_y = 45, numero_str = ''2'', rot_tamanho = 20\<rparr>]\<rparr>"

definition exemplo_prova_tibia :: arquivo where
  "exemplo_prova_tibia =
     \<lparr>base = exemplo_imagem,
      chamadas = [Preencher (10, 40, 60, 60), Contornar (8, 38, 62, 62)],
      rotulos = [\<lparr>pos_x = 32, pos_y = 45, numero_str = ''1'', rot_tamanho = 20\<rparr>]\<rparr>"

definition exemplo_destaque :: destaque where
  "exemplo_destaque = \<lparr>dest_x = 35, dest_y = 50, dest_largura = 50, dest_altura = 20\<rparr>"

text \<open>
  A phrase broken over two lines: "Femur" ends a line and "tibia" begins the next one, so
  the full text has a line feed between them.
\<close>

definition exemplo_dados_quebra :: "token list" where
  "exemplo_dados_quebra =
     [\<lparr>tok_text = ''Femur'', tok_conf = 80, tok_left = 60, tok_top = 10,
       tok_width = 50, tok_height = 20\<rparr>,
      \<lparr>tok_text = ''tibia'', tok_conf = 80, tok_left = 10, tok_top = 40,
       tok_width = 48, tok_height = 20\<rparr>]"

definition exemplo_ambiente_quebra :: ambiente where
  "exemplo_ambiente_quebra = \<lparr>abrir_imagem = Some exemplo_imagem,
                               image_to_string = Some (''Femur'' @ [CHR 0x0A] @ ''tibia''),
                               image_to_data = Some exemplo_dados_quebra,
                               fonte_carregada = Some exemplo_fonte\<rparr>"




section \<open>The confidence filters\<close>

lemma cobrir_blocos_acc:
  "cobrir_blocos dados (ops, n) =
     (ops @ map bloco_coberto (filter (\<lambda>t. \<not> descartado 0 t) dados),
      n + length (filter (\<lambda>t. \<not> descartado 0 t) dados))"
  by (induction dados arbitrary: ops n) (auto simp: bloco_coberto_def descartado_def)

lemma coordenadas_palavras_filter:
  "coordenadas_palavras dados = map caixa_de (filter (\<lambda>t. \<not> descartado 30 t) dados)"
  by (induction dados) (auto simp: caixa_de_def descartado_def)

text \<open>
  C9. Both pipelines drop exactly the OCR tokens whose trimmed text is empty or whose
  confidence is at or below the threshold: the erase-all-text loop covers (and counts) the
  tokens not discarded at threshold 0, the highlight script keeps as word boxes the tokens
  not discarded at threshold 30, both in OCR order.
\<close>

theorem filtros_de_confianca:
  "cobrir_blocos dados ([], 0) =
     (map bloco_coberto (filter (\<lambda>t. \<not> descartado 0 t) dados),
      length (filter (\<lambda>t. \<not> descartado 0 t) dados))
   \<and> coordenadas_palavras dados = map caixa_de (filter (\<lambda>t. \<not> descartado 30 t) dados)"
  using cobrir_blocos_acc [of dados "[]" 0] coordenadas_palavras_filter [of dados] by simp

section \<open>The phrase matcher\<close>

lemma contem_iff: "contem a b \<longleftrightarrow> sublist a b"
  by (induction b) (auto simp: sublist_Cons_right)

lemma sequencia_encontrada_iff:
  "sequencia_encontrada cs p ts \<longleftrightarrow>
     (ts = [] \<or> (p + length ts \<le> length cs \<and>
        (\<forall>j<length ts. contem (ts ! j) (lower (texto (cs ! (p + j)))))))"
proof (induction ts arbitrary: p)
  case Nil
  show ?case by simp
next
  case (Cons t ts)
  show ?case
  proof (cases ts)
    case Nil
    then show ?thesis by auto
  next
    case (Cons u us)
    have "(\<forall>j<Suc (length ts). contem ((t # ts) ! j) (lower (texto (cs ! (p + j))))) \<longleftrightarrow>
          (contem t (lower (texto (cs ! p))) \<and>
           (\<forall>j<length ts. contem (ts ! j) (lower (texto (cs ! (Suc p + j))))))"
      by (auto simp: less_Suc_eq_0_disj)
    with Cons.IH [of "Suc p"] Cons show ?thesis by auto
  qed
qed

lemma sequencia_encontrada_janela:
  "toks \<noteq> [] \<Longrightarrow> sequencia_encontrada cs i toks = spec_janela cs toks i"
  by (simp add: sequencia_encontrada_iff spec_janela_def)

lemma min_lista_Min: "xs \<noteq> [] \<Longrightarrow> min_lista xs = Min (set xs)"
proof (cases xs)
  case (Cons a as)
  show ?thesis unfolding Cons min_lista_def using Min.set_eq_fold [of a as] by simp
qed simp

lemma max_lista_Max: "xs \<noteq> [] \<Longrightarrow> max_lista xs = Max (set xs)"
proof (cases xs)
  case (Cons a as)
  show ?thesis unfolding Cons max_lista_def using Max.set_eq_fold [of a as] by simp
qed simp

lemma retangulo_frase_limites:
  assumes "0 < k" and "i + k \<le> length cs"
  shows "retangulo_frase cs i k = Inr (spec_limites cs i k)"
proof -
  have ne: "[0..<k] \<noteq> []" using assms by simp
  show ?thesis using assms
    by (simp add: retangulo_frase_def spec_limites_def min_lista_Min max_lista_Max
        atLeast0LessThan)
qed


lemma destacar_frase_desenhavel:
  "destacar_frase oc nu r st =
     (if desenhavel oc r then Inr (regiao_destacada oc nu r st) else Inl ValueError)"
  by (cases r) (auto simp: destacar_frase_def desenhavel_def margem_def retangulo_aceito_def)

lemma laco_frase_fold:
  assumes "toks \<noteq> []"
    and "\<forall>i\<in>set is. spec_janela cs toks i \<longrightarrow> desenhavel oc (spec_limites cs i (length toks))"
  shows "laco_frase oc nu cs toks is st =
         Inr (foldl (\<lambda>s i. regiao_destacada oc nu (spec_limites cs i (length toks)) s) st
                (filter (spec_janela cs toks) is))"
  using assms(2)
proof (induction "is" arbitrary: st)
  case Nil
  show ?case by simp
next
  case (Cons i "is")
  show ?case
  proof (cases "spec_janela cs toks i")
    case True
    then have "i + length toks \<le> length cs" by (simp add: spec_janela_def)
    with assms(1) have "retangulo_frase cs i (length toks) = Inr (spec_limites cs i (length toks))"
      by (simp add: retangulo_frase_limites)
    moreover have "desenhavel oc (spec_limites cs i (length toks))"
      using True Cons.prems by simp
    ultimately show ?thesis
      using True assms(1) Cons.IH Cons.prems
      by (simp add: sequencia_encontrada_janela destacar_frase_desenhavel)
  next
    case False
    with assms(1) Cons.IH Cons.prems show ?thesis by (simp add: sequencia_encontrada_janela)
  qed
qed


lemma filter_janela_upt:
  assumes "toks \<noteq> []"
  shows "filter (spec_janela cs toks) [0..<length cs + 1 - length toks] =
         filter (spec_janela cs toks) [0..<length cs]"
proof -
  let ?m = "length cs + 1 - length toks"
  have le: "?m \<le> length cs" using assms by (cases toks) auto
  have "[0..<length cs] = [0..<?m] @ [?m..<length cs]"
    using le by (metis le0 upt_add_eq_append le_add_diff_inverse)
  moreover have "filter (spec_janela cs toks) [?m..<length cs] = []"
    by (auto simp: filter_empty_conv spec_janela_def)
  ultimately show ?thesis by simp
qed

lemma destacar_palavra_caixa:
  "destacar_palavra oc nu c st = regiao_destacada oc nu (caixa c) st"
  by (simp add: destacar_palavra_def regiao_destacada_def caixa_def)

lemma laco_palavra_fold:
  "laco_palavra oc nu p cs st =
     foldl (\<lambda>s c. regiao_destacada oc nu (caixa c) s) st
       (filter (\<lambda>c. contem p (lower (texto c))) cs)"
  by (induction cs arbitrary: st) (simp_all add: destacar_palavra_caixa)

lemma palavras_encontradas_foldl:
  "palavras_encontradas (foldl (\<lambda>s x. regiao_destacada oc nu (f x) s) st xs) =
     palavras_encontradas st + length xs"
  by (induction xs arbitrary: st) (simp_all add: regiao_destacada_def split: prod.splits)

lemma frase_emite_regioes_desenhaveis:
  assumes "CHR '' '' \<in> set palavra_chave" and "split palavra_chave \<noteq> []"
    and "\<forall>i. spec_janela cs (split palavra_chave) i \<longrightarrow>
           desenhavel oc (spec_limites cs i (length (split palavra_chave)))"
  shows "destacar_chave oc nu cs palavra_chave st =
           Inr (foldl (\<lambda>s i. regiao_destacada oc nu
                                 (spec_limites cs i (length (split palavra_chave))) s) st
                  (filter (spec_janela cs (split palavra_chave)) [0..<length cs]))"
proof -
  have "destacar_chave oc nu cs palavra_chave st =
          laco_frase oc nu cs (split palavra_chave)
            [0..<length cs + 1 - length (split palavra_chave)] st"
    using assms(1) by (simp add: destacar_chave_def Let_def)
  also have "\<dots> = Inr (foldl (\<lambda>s i. regiao_destacada oc nu
                                 (spec_limites cs i (length (split palavra_chave))) s) st
                  (filter (spec_janela cs (split palavra_chave))
                     [0..<length cs + 1 - length (split palavra_chave)]))"
    using assms(3) by (intro laco_frase_fold [OF assms(2)]) blast
  finally show ?thesis unfolding filter_janela_upt [OF assms(2)] .
qed

text \<open>
  C1. The code breaks the claim on a phrase broken over two lines. In the example the two
  boxes at indices 0 and 1 exist and contain the tokens of the phrase "femur tibia", so the
  window at index 0 matches, as the script's own test finds, and its bounds, computed as the
  claim says, are (60, 10, 58, 60): the left edge of "Femur" lies right of the right edge of
  "tibia". The script draws them without ordering the edges, the fill raises ValueError, and
  the call for the image ends in the handler with (false, 0, false): no region is emitted for
  the matching window, and none for the key phrase "tibia" that follows. Where every matching
  window can be drawn the branch emits exactly the regions of the claim
  (\<open>frase_emite_regioes_desenhaveis\<close>).
\<close>

theorem frase_quebrada_nao_emite:
  "split ''femur tibia'' = [''femur'', ''tibia''] \<and>
   length (coordenadas_palavras exemplo_dados_quebra) = 2 \<and>
   contem ''femur'' (lower (texto (coordenadas_palavras exemplo_dados_quebra ! 0))) \<and>
   contem ''tibia'' (lower (texto (coordenadas_palavras exemplo_dados_quebra ! 1))) \<and>
   sequencia_encontrada (coordenadas_palavras exemplo_dados_quebra) 0 [''femur'', ''tibia''] \<and>
   retangulo_frase (coordenadas_palavras exemplo_dados_quebra) 0 2 = Inr (60, 10, 58, 60) \<and>
   destacar_chave True False (coordenadas_palavras exemplo_dados_quebra) ''femur tibia''
     estado_inicial = Inl ValueError \<and>
   detectar_e_destacar_palavras exemplo_ambiente_quebra ''a.png'' [''femur tibia'', ''tibia'']
     True False =
     \<lparr>sucesso = False, ocorrencias = 0, encontrou = False, salvo = None,
      registro = [Erro_ao_processar ''a.png'']\<rparr>"
proof -
  have s: "split ''femur tibia'' = [''femur'', ''tibia'']" by code_simp
  have j: "length (coordenadas_palavras exemplo_dados_quebra) = 2 \<and>
           contem ''femur'' (lower (texto (coordenadas_palavras exemplo_dados_quebra ! 0))) \<and>
           contem ''tibia'' (lower (texto (coordenadas_palavras exemplo_dados_quebra ! 1))) \<and>
           sequencia_encontrada (coordenadas_palavras exemplo_dados_quebra) 0
             [''femur'', ''tibia'']"
    by code_simp
  have r: "retangulo_frase (coordenadas_palavras exemplo_dados_quebra) 0 2
             = Inr (60, 10, 58, 60)"
    by code_simp
  have d: "destacar_chave True False (coordenadas_palavras exemplo_dados_quebra)
             ''femur tibia'' estado_inicial = Inl ValueError"
    by code_simp
  have g: "texto_encontrado (map lower [''femur tibia'', ''tibia''])
             (lower (''Femur'' @ [CHR 0x0A] @ ''tibia''))"
    by code_simp
  have l: "laco_chaves True False (coordenadas_palavras exemplo_dados_quebra)
             (map lower [''femur tibia'', ''tibia'']) estado_inicial = Inl ValueError"
    by code_simp
  have f: "detectar_e_destacar_palavras exemplo_ambiente_quebra ''a.png''
             [''femur tibia'', ''tibia''] True False = falha ''a.png'' []"
    unfolding detectar_e_destacar_palavras_def exemplo_ambiente_quebra_def
    using g l by (simp add: exemplo_fonte_def del: laco_chaves.simps)
  show ?thesis using s j r d f by (simp add: falha_def)
qed

text \<open>
  C2. For a key phrase that takes the single-word branch, one region is emitted for each
  word box whose lower-cased text contains the phrase, in box order, and its bounds are the
  rectangle of that box; the count of emitted regions grows by the number of such boxes.
\<close>

theorem palavra_emite_regioes:
  assumes "CHR '' '' \<notin> set palavra_chave"
  shows "\<exists>st'. destacar_chave oc nu cs palavra_chave st = Inr st' \<and>
           st' = foldl (\<lambda>s c. regiao_destacada oc nu (caixa c) s) st
                   (filter (\<lambda>c. contem palavra_chave (lower (texto c))) cs) \<and>
           palavras_encontradas st' = palavras_encontradas st +
             length (filter (\<lambda>c. contem palavra_chave (lower (texto c))) cs)"
  using assms
  by (simp add: destacar_chave_def laco_palavra_fold palavras_encontradas_foldl)

text \<open>The specification's example: the word "tibia" over the two boxes.\<close>

theorem palavra_emite_regioes_witness:
  "CHR '' '' \<notin> set ''tibia'' \<and>
   destacar_chave True True [exemplo_femur, exemplo_tibia] ''tibia'' estado_inicial =
     Inr \<lparr>desenho = [Preencher (10, 40, 60, 60), Contornar (8, 38, 62, 62)],
          destaques = [\<lparr>dest_x = 35, dest_y = 50, dest_largura = 50, dest_altura = 20\<rparr>],
          palavras_encontradas = 1\<rparr>"
proof -
  have h: "CHR '' '' \<notin> set ''tibia''" by simp
  have f: "filter (\<lambda>c. contem ''tibia'' (lower (texto c))) [exemplo_femur, exemplo_tibia]
             = [exemplo_tibia]"
    by code_simp
  show ?thesis
    using palavra_emite_regioes [OF h, of True True "[exemplo_femur, exemplo_tibia]" estado_inicial]
    unfolding f
    by (simp add: h regiao_destacada_def caixa_def estado_inicial_def exemplo_tibia_def)
qed

section \<open>The full-text gate\<close>

text \<open>
  C3, as stated, fails. The gate does not read the word boxes: it searches the string
  returned by \<open>image_to_string\<close>, a separate OCR call that also holds the words the
  confidence filter drops. Here no key phrase occurs in the space-joined word-box texts, yet
  the gate passes and the function reports a keyword as present.
\<close>

theorem porta_fechada_counterexample:
  "\<not> texto_encontrado (map lower [''femur'']) (lower (texto_reconstruido exemplo_dados)) \<and>
   sucesso (detectar_e_destacar_palavras exemplo_ambiente ''a.png'' [''femur''] True True) \<and>
   ocorrencias (detectar_e_destacar_palavras exemplo_ambiente ''a.png'' [''femur''] True True) = 0 \<and>
   encontrou (detectar_e_destacar_palavras exemplo_ambiente ''a.png'' [''femur''] True True)"
  by code_simp

text \<open>
  C3, amended. If no lower-cased key phrase is a substring of the lower-cased string returned
  by \<open>image_to_string\<close>, the function scans no box: it saves the opened image with nothing
  drawn on it and returns success, zero occurrences and "no keyword present", whatever the
  word list holds.
\<close>

theorem porta_fechada:
  assumes "abrir_imagem amb = Some img" and "image_to_string amb = Some texto_ocr"
    and "image_to_data amb = Some dados"
    and "\<not> texto_encontrado (map lower palavras_chave) (lower texto_ocr)"
  shows "sucesso (detectar_e_destacar_palavras amb nome palavras_chave oc nu) \<and>
         ocorrencias (detectar_e_destacar_palavras amb nome palavras_chave oc nu) = 0 \<and>
         \<not> encontrou (detectar_e_destacar_palavras amb nome palavras_chave oc nu) \<and>
         salvo (detectar_e_destacar_palavras amb nome palavras_chave oc nu) =
           Some \<lparr>base = img, chamadas = [], rotulos = []\<rparr>"
  using assms by (simp add: detectar_e_destacar_palavras_def Let_def)

text \<open>The specification's example: the word "patella" is not in the image.\<close>

theorem porta_fechada_witness:
  "\<not> texto_encontrado (map lower [''Patella'']) (lower ''Femur tibia'') \<and>
   sucesso (detectar_e_destacar_palavras exemplo_ambiente ''a.png'' [''Patella''] True True) \<and>
   ocorrencias (detectar_e_destacar_palavras exemplo_ambiente ''a.png'' [''Patella''] True True) = 0 \<and>
   \<not> encontrou (detectar_e_destacar_palavras exemplo_ambiente ''a.png'' [''Patella''] True True) \<and>
   salvo (detectar_e_destacar_palavras exemplo_ambiente ''a.png'' [''Patella''] True True) =
     Some \<lparr>base = exemplo_imagem, chamadas = [], rotulos = []\<rparr>"
proof -
  have g: "\<not> texto_encontrado (map lower [''Patella'']) (lower ''Femur tibia'')"
    by code_simp
  show ?thesis
    using g porta_fechada [of exemplo_ambiente exemplo_imagem "''Femur tibia''" exemplo_dados
        "[''Patella'']" "''a.png''" True True]
    by (simp add: exemplo_ambiente_def)
qed

section \<open>A passed gate\<close>






lemma pastas_contabilizar [simp]:
  "pasta_destino (contabilizar op nome suc n e l) = pasta_destino l"
  "pasta_gabarito (contabilizar op nome suc n e l) = pasta_gabarito l"
  "pasta_prova (contabilizar op nome suc n e l) = pasta_prova l"
  by (simp_all add: contabilizar_def Let_def)



lemma exemplo_coordenadas: "coordenadas_palavras exemplo_dados = [exemplo_tibia]"
  by code_simp





section \<open>Failures stay with their image\<close>

lemma detectar_falha:
  assumes "abrir_imagem amb = None \<or> image_to_string amb = None \<or> image_to_data amb = None"
  shows "detectar_e_destacar_palavras amb nome chaves oc nu = falha nome []"
  using assms by (auto simp: detectar_e_destacar_palavras_def split: option.splits)

lemma erros_processar_imagem:
  "imagens_com_erro (processar_imagem chaves op im l) =
     imagens_com_erro l + (if sucesso_imagem chaves op im then 0 else 1)"
  "imagens_processadas (processar_imagem chaves op im l) =
     imagens_processadas l + (if sucesso_imagem chaves op im then 1 else 0)"
  by (cases im; simp add: processar_imagem_def sucesso_imagem_def contabilizar_def Let_def)+

lemma erros_laco_imagens:
  "imagens_com_erro (laco_imagens chaves op ims l) =
     imagens_com_erro l + length (filter (\<lambda>im. \<not> sucesso_imagem chaves op im) ims) \<and>
   imagens_processadas (laco_imagens chaves op ims l) =
     imagens_processadas l + length (filter (sucesso_imagem chaves op) ims)"
  by (induction ims arbitrary: l) (simp_all add: erros_processar_imagem)

lemma laco_imagens_append:
  "laco_imagens chaves op (antes @ depois) l =
     laco_imagens chaves op depois (laco_imagens chaves op antes l)"
  by (induction antes arbitrary: l) simp_all

text \<open>
  C10. If opening the image or either OCR call raises, the call for that image catches the
  exception: it logs one error, saves nothing and returns the failed result (false, 0,
  false). In the batch the image counts as one error, and the loop goes on with the images
  after it exactly as it would from the state the failed iteration leaves: the counters of
  errors and of processed images are those of the images before, this one failure, and the
  images after.
\<close>

theorem falha_isolada:
  assumes "abrir_imagem amb = None \<or> image_to_string amb = None \<or> image_to_data amb = None"
  shows "detectar_e_destacar_palavras amb nome chaves oc nu =
           \<lparr>sucesso = False, ocorrencias = 0, encontrou = False, salvo = None,
            registro = [Erro_ao_processar nome]\<rparr> \<and>
         \<not> sucesso_imagem chaves op (nome, amb) \<and>
         laco_imagens chaves op (antes @ (nome, amb) # depois) l =
           laco_imagens chaves op depois
             (processar_imagem chaves op (nome, amb) (laco_imagens chaves op antes l)) \<and>
         imagens_com_erro (laco_imagens chaves op (antes @ (nome, amb) # depois) l) =
           imagens_com_erro l + length (filter (\<lambda>im. \<not> sucesso_imagem chaves op im) antes)
             + 1 + length (filter (\<lambda>im. \<not> sucesso_imagem chaves op im) depois) \<and>
         imagens_processadas (laco_imagens chaves op (antes @ (nome, amb) # depois) l) =
           imagens_processadas l + length (filter (sucesso_imagem chaves op) antes)
             + length (filter (sucesso_imagem chaves op) depois)"
proof -
  have f: "\<And>oc nu. detectar_e_destacar_palavras amb nome chaves oc nu = falha nome []"
    using assms by (rule detectar_falha)
  have s: "\<not> sucesso_imagem chaves op (nome, amb)"
    by (simp add: sucesso_imagem_def f falha_def)
  show ?thesis
    using s by (simp add: f falha_def laco_imagens_append erros_laco_imagens
        erros_processar_imagem)
qed


text \<open>A batch of an unreadable file followed by a readable image: one error, one processed.\<close>

theorem falha_isolada_witness:
  "abrir_imagem exemplo_ilegivel = None \<and>
   detectar_e_destacar_palavras exemplo_ilegivel ''ruim.png'' [''tibia''] True True =
     \<lparr>sucesso = False, ocorrencias = 0, encontrou = False, salvo = None,
      registro = [Erro_ao_processar ''ruim.png'']\<rparr> \<and>
   imagens_com_erro (laco_imagens [''tibia''] exemplo_opcoes
      ([] @ (''ruim.png'', exemplo_ilegivel) # [(''a.png'', exemplo_ambiente)]) lote_vazio) = 1 \<and>
   imagens_processadas (laco_imagens [''tibia''] exemplo_opcoes
      ([] @ (''ruim.png'', exemplo_ilegivel) # [(''a.png'', exemplo_ambiente)]) lote_vazio) = 1"
proof -
  have h: "abrir_imagem exemplo_ilegivel = None \<or> image_to_string exemplo_ilegivel = None \<or>
           image_to_data exemplo_ilegivel = None"
    by (simp add: exemplo_ilegivel_def)
  have s: "sucesso_imagem [''tibia''] exemplo_opcoes (''a.png'', exemplo_ambiente)"
    by code_simp
  show ?thesis
    using falha_isolada [OF h, of "''ruim.png''" "[''tibia'']" True True exemplo_opcoes "[]"
        "[(''a.png'', exemplo_ambiente)]" lote_vazio] s
    by (simp add: exemplo_ilegivel_def lote_vazio_def)
qed

section \<open>Sequential numbering\<close>

lemma cobertas_append: "cobertas (xs @ ys) = cobertas xs @ cobertas ys"
  by (induction xs rule: cobertas.induct) simp_all

lemma inv_regiao_destacada:
  "inv_numeracao oc nu st \<Longrightarrow> inv_numeracao oc nu (regiao_destacada oc nu r st)"
  by (cases r) (auto simp: inv_numeracao_def regiao_destacada_def cobertas_append destaque_de_def)

lemma inv_destacar_frase:
  "inv_numeracao oc nu st \<Longrightarrow> destacar_frase oc nu r st = Inr st' \<Longrightarrow> inv_numeracao oc nu st'"
  by (auto simp: destacar_frase_desenhavel inv_regiao_destacada split: if_splits)

lemma inv_laco_frase:
  "inv_numeracao oc nu st \<Longrightarrow> laco_frase oc nu cs toks is st = Inr st' \<Longrightarrow>
     inv_numeracao oc nu st'"
proof (induction "is" arbitrary: st)
  case Nil
  then show ?case by simp
next
  case (Cons i "is")
  show ?case
  proof (cases "sequencia_encontrada cs i toks")
    case True
    with Cons.prems(2) obtain r st1 where "destacar_frase oc nu r st = Inr st1"
      and l: "laco_frase oc nu cs toks is st1 = Inr st'"
      by (auto split: sum.splits)
    then have "inv_numeracao oc nu st1" using Cons.prems(1) inv_destacar_frase by blast
    from Cons.IH [OF this l] show ?thesis .
  next
    case False
    with Cons show ?thesis by simp
  qed
qed

lemma inv_laco_palavra:
  "inv_numeracao oc nu st \<Longrightarrow> inv_numeracao oc nu (laco_palavra oc nu p cs st)"
  by (induction cs arbitrary: st) (simp_all add: destacar_palavra_caixa inv_regiao_destacada)

lemma inv_destacar_chave:
  "inv_numeracao oc nu st \<Longrightarrow> destacar_chave oc nu cs p st = Inr st' \<Longrightarrow>
     inv_numeracao oc nu st'"
  by (auto simp: destacar_chave_def Let_def inv_laco_palavra split: if_splits
           dest: inv_laco_frase)

lemma inv_laco_chaves:
  "inv_numeracao oc nu st \<Longrightarrow> laco_chaves oc nu cs ps st = Inr st' \<Longrightarrow>
     inv_numeracao oc nu st'"
proof (induction ps arbitrary: st)
  case Nil
  then show ?case by simp
next
  case (Cons p ps)
  from Cons.prems(2) obtain st1 where a: "destacar_chave oc nu cs p st = Inr st1"
    and b: "laco_chaves oc nu cs ps st1 = Inr st'"
    by (auto split: sum.splits)
  from Cons.IH [OF inv_destacar_chave [OF Cons.prems(1) a] b] show ?case .
qed

lemma inv_inicial: "inv_numeracao oc nu estado_inicial"
  by (simp add: inv_numeracao_def estado_inicial_def)

lemma enumerar_Inr:
  "enumerar fo k ds = Inr rs \<Longrightarrow>
     length rs = length ds \<and> (\<forall>i<length ds. rotular fo (k + i) (ds ! i) = Inr (rs ! i))"
proof (induction ds arbitrary: k rs)
  case Nil
  then show ?case by simp
next
  case (Cons d ds)
  from Cons.prems obtain r rs' where r: "rotular fo k d = Inr r"
    and e: "enumerar fo (Suc k) ds = Inr rs'" and rs: "rs = r # rs'"
    by (auto split: sum.splits)
  from Cons.IH [OF e] have l: "length rs' = length ds"
    and n: "\<forall>i<length ds. rotular fo (Suc k + i) (ds ! i) = Inr (rs' ! i)" by simp_all
  show ?case
  proof (intro conjI allI impI)
    show "length rs = length (d # ds)" using l rs by simp
  next
    fix i
    assume "i < length (d # ds)"
    then show "rotular fo (k + i) ((d # ds) ! i) = Inr (rs ! i)"
      using r n rs by (cases i) simp_all
  qed
qed

lemma numero_str_rotular: "rotular fo i d = Inr r \<Longrightarrow> numero_str r = str i"
  by (auto simp: rotular_def split: option.splits prod.splits)

lemma numeracao_enumerar: "numeracao fo True ds = enumerar fo 1 ds"
  by (cases ds) (simp_all add: numeracao_def)

lemma salvo_detectar:
  assumes "salvo (detectar_e_destacar_palavras amb nome chaves oc nu) = Some a"
  shows "(chamadas a = [] \<and> rotulos a = []) \<or>
         (\<exists>st. inv_numeracao oc nu st \<and> chamadas a = desenho st \<and>
               numeracao (fonte_carregada amb) nu (destaques st) = Inr (rotulos a))"
proof -
  {
    fix st
    assume "laco_chaves oc nu (coordenadas_palavras (the (image_to_data amb)))
              (map lower chaves) estado_inicial = Inr st"
    then have "inv_numeracao oc nu st" using inv_laco_chaves [OF inv_inicial] by blast
  }
  then show ?thesis using assms
    by (auto simp: detectar_e_destacar_palavras_def Let_def falha_def
             split: option.splits if_splits sum.splits)
qed

text \<open>
  C5. In a saved file the labels are exactly the covered regions: without the cover flag
  nothing is filled and nothing is labelled (an outline-only region gets no digit), without
  the numbering flag nothing is labelled, and with both flags there is one label per filled
  region, in the order of the fills (phrase list order, then word-box order); label \<open>i\<close>,
  counted from 0, is the one the loop body draws for the centre and extent of filled region
  \<open>i\<close>, and shows \<open>str (i + 1)\<close>.
\<close>

theorem numeracao_das_cobertas:
  assumes "salvo (detectar_e_destacar_palavras amb nome chaves oc nu) = Some a"
  shows "(\<not> oc \<longrightarrow> cobertas (chamadas a) = [] \<and> rotulos a = []) \<and>
         (\<not> nu \<longrightarrow> rotulos a = []) \<and>
         (oc \<and> nu \<longrightarrow>
            length (rotulos a) = length (cobertas (chamadas a)) \<and>
            (\<forall>i<length (rotulos a).
               rotular (fonte_carregada amb) (i + 1)
                 (destaque_de (cobertas (chamadas a) ! i)) = Inr (rotulos a ! i) \<and>
               numero_str (rotulos a ! i) = str (i + 1)))"
proof -
  from salvo_detectar [OF assms] show ?thesis
  proof
    assume "chamadas a = [] \<and> rotulos a = []"
    then show ?thesis by simp
  next
    assume "\<exists>st. inv_numeracao oc nu st \<and> chamadas a = desenho st \<and>
               numeracao (fonte_carregada amb) nu (destaques st) = Inr (rotulos a)"
    then obtain st where i: "inv_numeracao oc nu st" and c: "chamadas a = desenho st"
      and r: "numeracao (fonte_carregada amb) nu (destaques st) = Inr (rotulos a)" by blast
    have n1: "\<not> oc \<longrightarrow> cobertas (chamadas a) = [] \<and> rotulos a = []"
      using i c r by (auto simp: inv_numeracao_def numeracao_def)
    have n2: "\<not> nu \<longrightarrow> rotulos a = []"
      using r by (auto simp: numeracao_def)
    have n3: "oc \<and> nu \<longrightarrow>
            length (rotulos a) = length (cobertas (chamadas a)) \<and>
            (\<forall>i<length (rotulos a).
               rotular (fonte_carregada amb) (i + 1)
                 (destaque_de (cobertas (chamadas a) ! i)) = Inr (rotulos a ! i) \<and>
               numero_str (rotulos a ! i) = str (i + 1))"
    proof
      assume f: "oc \<and> nu"
      then have d: "destaques st = map destaque_de (cobertas (chamadas a))"
        using i c by (simp add: inv_numeracao_def)
      have "enumerar (fonte_carregada amb) 1 (destaques st) = Inr (rotulos a)"
        using r f by (simp add: numeracao_enumerar)
      from enumerar_Inr [OF this]
      have l: "length (rotulos a) = length (destaques st)"
        and e: "\<forall>i<length (destaques st).
                  rotular (fonte_carregada amb) (1 + i) (destaques st ! i) = Inr (rotulos a ! i)"
        by simp_all
      show "length (rotulos a) = length (cobertas (chamadas a)) \<and>
            (\<forall>i<length (rotulos a).
               rotular (fonte_carregada amb) (i + 1)
                 (destaque_de (cobertas (chamadas a) ! i)) = Inr (rotulos a ! i) \<and>
               numero_str (rotulos a ! i) = str (i + 1))"
      proof (intro conjI allI impI)
        show "length (rotulos a) = length (cobertas (chamadas a))" using l d by simp
      next
        fix j
        assume j: "j < length (rotulos a)"
        with l e have "rotular (fonte_carregada amb) (1 + j) (destaques st ! j)
                         = Inr (rotulos a ! j)" by simp
        moreover have "destaques st ! j = destaque_de (cobertas (chamadas a) ! j)"
          using j l d by simp
        ultimately show "rotular (fonte_carregada amb) (j + 1)
                 (destaque_de (cobertas (chamadas a) ! j)) = Inr (rotulos a ! j)"
          by (simp add: add.commute)
        then show "numero_str (rotulos a ! j) = str (j + 1)"
          by (rule numero_str_rotular)
      qed
    qed
    from n1 n2 n3 show ?thesis by blast
  qed
qed

lemma exemplo_str:
  "str 1 = ''1''" "str (Suc 0) = ''1''" "str 2 = ''2''" "str (Suc (Suc 0)) = ''2''"
  by code_simp+

lemma exemplo_meia_medida: "meia_medida exemplo_fonte s t = (3, 5)"
  by (simp add: meia_medida_def exemplo_fonte_def)

lemma exemplo_prova_salva:
  "salvo (detectar_e_destacar_palavras exemplo_ambiente_nitido ''a.png''
            [''Femur tibia'', ''tibia''] True True) = Some exemplo_prova"
proof -
  have l: "lower ''Femur tibia'' = ''femur tibia''" "lower ''tibia'' = ''tibia''"
    by code_simp+
  have c: "coordenadas_palavras exemplo_dados_nitidos = [exemplo_femur, exemplo_tibia]"
    by code_simp
  have s: "laco_chaves True True [exemplo_femur, exemplo_tibia] [''femur tibia'', ''tibia'']
             estado_inicial =
           Inr \<lparr>desenho = [Preencher (10, 10, 60, 60), Contornar (8, 8, 62, 62),
                           Preencher (10, 40, 60, 60), Contornar (8, 38, 62, 62)],
                destaques = [\<lparr>dest_x = 35, dest_y = 35, dest_largura = 50, dest_altura = 50\<rparr>,
                             \<lparr>dest_x = 35, dest_y = 50, dest_largura = 50, dest_altura = 20\<rparr>],
                palavras_encontradas = 2\<rparr>"
    by code_simp
  show ?thesis
    by (simp add: detectar_e_destacar_palavras_def exemplo_ambiente_nitido_def l c s exemplo_str
        texto_encontrado_def numeracao_def rotular_def exemplo_meia_medida exemplo_prova_def
        del: laco_chaves.simps)
       (simp add: exemplo_fonte_def)
qed

text \<open>Two key phrases, two covered regions, labels "1" and "2" in that order.\<close>

theorem numeracao_das_cobertas_witness:
  "salvo (detectar_e_destacar_palavras exemplo_ambiente_nitido ''a.png''
            [''Femur tibia'', ''tibia''] True True) = Some exemplo_prova \<and>
   cobertas (chamadas exemplo_prova) = [(10, 10, 60, 60), (10, 40, 60, 60)] \<and>
   length (rotulos exemplo_prova) = 2 \<and>
   numero_str (rotulos exemplo_prova ! 0) = str 1 \<and>
   numero_str (rotulos exemplo_prova ! 1) = str 2"
  using numeracao_das_cobertas [OF exemplo_prova_salva] exemplo_prova_salva
  by (simp add: exemplo_prova_def exemplo_str)

lemma exemplo_prova_tibia_salva:
  "salvo (detectar_e_destacar_palavras exemplo_ambiente_nitido ''a.png'' [''tibia''] True True)
     = Some exemplo_prova_tibia"
proof -
  have l: "lower ''Femur tibia'' = ''femur tibia''" "lower ''tibia'' = ''tibia''"
    by code_simp+
  have c: "coordenadas_palavras exemplo_dados_nitidos = [exemplo_femur, exemplo_tibia]"
    by code_simp
  have s: "laco_chaves True True [exemplo_femur, exemplo_tibia] [''tibia''] estado_inicial =
           Inr \<lparr>desenho = [Preencher (10, 40, 60, 60), Contornar (8, 38, 62, 62)],
                destaques = [\<lparr>dest_x = 35, dest_y = 50, dest_largura = 50, dest_altura = 20\<rparr>],
                palavras_encontradas = 1\<rparr>"
    by code_simp
  show ?thesis
    by (simp add: detectar_e_destacar_palavras_def exemplo_ambiente_nitido_def l c s exemplo_str
        texto_encontrado_def numeracao_def rotular_def exemplo_meia_medida
        exemplo_prova_tibia_def del: laco_chaves.simps)
       (simp add: exemplo_fonte_def)
qed

text \<open>
  C8. The code breaks the claim in two places, both at the covered box of "tibia", 50 wide
  and 20 high. The script computes the size \<open>max(12, min(50, 20) // 2) = 12\<close>, as its comment
  "adjust the font size to the size of the rectangle" announces, but never builds a font of
  that size: the label is drawn with the font loaded once at size 20, and the computed value
  is read only by the fallback estimate of the text extent (a label "1" is then taken to be
  \<open>1 * 12 * 0.6\<close> wide and 12 high, still drawn at size 20). On a system where no font can be
  loaded, the branch meant to draw "directly" at the centre minus (5, 10) calls
  \<open>desenho.text\<close> without a font; the library asks for the default font again, the call
  raises, and the image is reported as failed with nothing saved.
\<close>

theorem rotulo_sem_adaptacao:
  "laco_chaves True True (coordenadas_palavras exemplo_dados_nitidos) [''tibia'']
     estado_inicial =
     Inr \<lparr>desenho = [Preencher (10, 40, 60, 60), Contornar (8, 38, 62, 62)],
          destaques = [exemplo_destaque], palavras_encontradas = 1\<rparr> \<and>
   tamanho_fonte exemplo_destaque = 12 \<and>
   salvo (detectar_e_destacar_palavras exemplo_ambiente_nitido ''a.png'' [''tibia''] True True)
     = Some exemplo_prova_tibia \<and>
   map rot_tamanho (rotulos exemplo_prova_tibia) = [20] \<and>
   rotular (Some exemplo_fonte_sem_medida) 1 exemplo_destaque =
     Inr \<lparr>pos_x = 32, pos_y = 44, numero_str = ''1'', rot_tamanho = 20\<rparr> \<and>
   detectar_e_destacar_palavras exemplo_ambiente_sem_fonte ''a.png'' [''tibia''] True True =
     \<lparr>sucesso = False, ocorrencias = 0, encontrou = False, salvo = None,
      registro = [Aviso_sem_fonte, Erro_ao_processar ''a.png'']\<rparr>"
proof -
  have s: "laco_chaves True True (coordenadas_palavras exemplo_dados_nitidos) [''tibia'']
             estado_inicial =
           Inr \<lparr>desenho = [Preencher (10, 40, 60, 60), Contornar (8, 38, 62, 62)],
                destaques = [exemplo_destaque], palavras_encontradas = 1\<rparr>"
    by code_simp
  have t: "tamanho_fonte exemplo_destaque = 12"
    by (simp add: tamanho_fonte_def exemplo_destaque_def)
  have l: "lower ''tibia'' = ''tibia''" by code_simp
  have g: "texto_encontrado [''tibia''] (lower ''Femur tibia'')" by code_simp
  have f: "detectar_e_destacar_palavras exemplo_ambiente_sem_fonte ''a.png'' [''tibia'']
             True True = falha ''a.png'' [Aviso_sem_fonte]"
    unfolding detectar_e_destacar_palavras_def exemplo_ambiente_sem_fonte_def
    by (simp add: l g s numeracao_def rotular_def del: laco_chaves.simps)
  have h: "rotular (Some exemplo_fonte_sem_medida) 1 exemplo_destaque =
             Inr \<lparr>pos_x = 32, pos_y = 44, numero_str = ''1'', rot_tamanho = 20\<rparr>"
    by (simp add: rotular_def meia_medida_def exemplo_fonte_sem_medida_def t exemplo_str)
       (simp add: exemplo_destaque_def)
  show ?thesis
    using s t f h exemplo_prova_tibia_salva
    by (simp add: falha_def exemplo_prova_tibia_def)
qed

section \<open>Region bounds and the image\<close>

text \<open>
  C6. The code breaks the claim on a phrase broken over two lines. The bounds are never
  compared with the size of the image, never clamped and never ordered: the comment says the
  rectangle spans the whole phrase, but its left edge is the left edge of the first word and
  its right edge the right edge of the last word, wherever they lie. Both word boxes of the
  example are inside the 200 by 100 image; with the cover flag off the key phrase
  "femur tibia" is outlined as the region (60, 10, 58, 60), whose left edge is to the right
  of its right edge.
\<close>

theorem regiao_invertida:
  "list_all (caixa_na_imagem (img_largura exemplo_imagem) (img_altura exemplo_imagem))
     (coordenadas_palavras exemplo_dados_quebra) \<and>
   map_option (\<lambda>a. regioes (chamadas a))
     (salvo (detectar_e_destacar_palavras exemplo_ambiente_quebra ''a.png''
               [''femur tibia'', ''tibia''] False False))
     = Some [(60, 10, 58, 60), (10, 40, 58, 60)] \<and>
   \<not> spec_dentro_da_imagem (img_largura exemplo_imagem) (img_altura exemplo_imagem)
        (60, 10, 58, 60)"
  by code_simp

section \<open>Cover, then outline\<close>




















end
